theory Spec2Isabelle
  imports Main
begin

section \<open>The changelog updater (\<open>.github/scripts/update_changelog.py\<close>)\<close>

text \<open>
  The script asks git for the recent commits, formats them as a dated section and rewrites
  \<open>CHANGELOG.md\<close>. A Python \<open>str\<close> is modelled as a \<open>string\<close>, one \<open>char\<close> per
  code point (code points below 256). The outside world is explicit: the finished git
  process (exit status and standard output), the text that
  \<open>datetime.utcnow().strftime("%Y-%m-%d")\<close> returns, and the content of the changelog
  file (\<open>None\<close> when the file does not exist). The content of the file is the decoded
  text of its bytes, line ends as they are on disk: reading in text mode translates them,
  and writing in text mode stores \<open>\<newline>\<close> as the line separator of the platform, which
  the model takes to be the line feed. File operations are modelled where they succeed;
  the one failure of the model is the git query's non-zero exit status.
\<close>

subsection \<open>String primitives of Python\<close>

abbreviation nl :: char where
  "nl \<equiv> CHR 0x0A"

text \<open>\<open>s.startswith(p)\<close>.\<close>

definition startswith :: "string \<Rightarrow> string \<Rightarrow> bool" where
  "startswith s p = (take (length p) s = p)"

text \<open>
  \<open>str.isspace\<close> for one character: the white space of Unicode among the code points
  below 256.
\<close>

definition is_space :: "char \<Rightarrow> bool" where
  "is_space c = (c \<in> set [CHR 0x09, CHR 0x0A, CHR 0x0B, CHR 0x0C, CHR 0x0D,
                           CHR 0x1C, CHR 0x1D, CHR 0x1E, CHR 0x1F, CHR 0x20,
                           CHR 0x85, CHR 0xA0])"

text \<open>\<open>s.strip()\<close>: white space removed at both ends.\<close>

definition strip :: "string \<Rightarrow> string" where
  "strip s = rev (dropWhile is_space (rev (dropWhile is_space s)))"

text \<open>
  \<open>s.split(sep)\<close> for a separator of one character: the pieces between the separators,
  empty pieces kept, so the result is never the empty list.
\<close>

fun split :: "char \<Rightarrow> string \<Rightarrow> string list" where
  "split sep [] = [[]]"
| "split sep (c # cs) =
     (if c = sep then [] # split sep cs
      else (case split sep cs of
              [] \<Rightarrow> [[c]]
            | p # ps \<Rightarrow> (c # p) # ps))"

text \<open>\<open>sep.join(xs)\<close>.\<close>

fun join :: "string \<Rightarrow> string list \<Rightarrow> string" where
  "join sep [] = []"
| "join sep [x] = x"
| "join sep (x # y # ys) = x @ sep @ join sep (y # ys)"

text \<open>
  The newline translation of a file read in text mode (\<open>newline=None\<close>): every carriage
  return followed by a line feed, and every other carriage return, is read as one line
  feed.
\<close>

abbreviation cr :: char where
  "cr \<equiv> CHR 0x0D"

fun universal_newlines :: "string \<Rightarrow> string" where
  "universal_newlines [] = []"
| "universal_newlines [c] = (if c = cr then [nl] else [c])"
| "universal_newlines (c # d # ds) =
     (if c = cr then
        (if d = nl then nl # universal_newlines ds else nl # universal_newlines (d # ds))
      else c # universal_newlines (d # ds))"

subsection \<open>The git query\<close>

text \<open>
  \<open>subprocess.check_output\<close> runs the command to its end and raises
  \<open>CalledProcessError\<close> when the exit status is not zero; otherwise it returns what
  the command printed; \<open>stdout\<close> is that text as \<open>text=True\<close> hands it over.
\<close>

record proc =
  returncode :: int
  stdout :: string

datatype error = CalledProcessError int

definition check_output :: "proc \<Rightarrow> error + string" where
  "check_output p =
     (if returncode p \<noteq> 0 then Inl (CalledProcessError (returncode p))
      else Inr (stdout p))"

definition get_commit_log :: "proc \<Rightarrow> error + string list" where
  "get_commit_log git =
     (case check_output git of
        Inl e \<Rightarrow> Inl e
      | Inr log \<Rightarrow> Inr (split nl (strip log)))"

subsection \<open>The changelog file and the run\<close>

text \<open>
  The world the script acts on: the content of \<open>CHANGELOG.md\<close> and the operations
  performed so far, in order.
\<close>

datatype event = RunGit | PathExists | OpenRead | OpenWrite | Write string

record world =
  changelog :: "string option"
  trace :: "event list"

definition log_event :: "event \<Rightarrow> world \<Rightarrow> world" where
  "log_event e w = w\<lparr>trace := trace w @ [e]\<rparr>"

text \<open>
  Lines 23 to 26: \<open>old_content\<close> is the empty string unless the file exists, and then
  it is the whole file as \<open>f.read()\<close> returns it in text mode, its line ends translated.
\<close>

definition read_changelog :: "world \<Rightarrow> string \<times> world" where
  "read_changelog w =
     (case changelog w of
        None \<Rightarrow> ([], log_event PathExists w)
      | Some s \<Rightarrow> (universal_newlines s, log_event OpenRead (log_event PathExists w)))"

text \<open>Lines 31 and 32: the file is opened for writing (truncated) and one text is written.\<close>

definition write_changelog :: "string \<Rightarrow> world \<Rightarrow> world" where
  "write_changelog s w =
     log_event (Write s) (log_event OpenWrite (w\<lparr>changelog := Some s\<rparr>))"

text \<open>Line 21: the list \<open>new_section\<close>.\<close>

definition new_section :: "string \<Rightarrow> string list \<Rightarrow> string list" where
  "new_section date_str commits =
     [''## '' @ date_str @ [nl]] @ map (\<lambda>c. ''- '' @ c) commits @ [[nl]]"

text \<open>Lines 28 and 29: the header is put in front of a content that does not start with it.\<close>

definition with_header :: "string \<Rightarrow> string" where
  "with_header old_content =
     (if \<not> startswith old_content ''# Changelog''
      then ''# Changelog'' @ [nl, nl] @ old_content
      else old_content)"

text \<open>
  \<open>update_changelog\<close>, with the git process and the date string of the run as
  arguments. The result is the error raised, if any, and the world after the run.
\<close>

definition update_changelog :: "proc \<Rightarrow> string \<Rightarrow> world \<Rightarrow> (error + unit) \<times> world" where
  "update_changelog git date_str w =
     (let w1 = log_event RunGit w in
      case get_commit_log git of
        Inl e \<Rightarrow> (Inl e, w1)
      | Inr commits \<Rightarrow>
          if commits = [] then (Inr (), w1)
          else
            (case read_changelog w1 of
               (old_content, w2) \<Rightarrow>
                 (Inr (),
                  write_changelog
                    (with_header old_content @ join [nl] (new_section date_str commits)) w2)))"

text \<open>What the run reads as \<open>old_content\<close> in a world, and the text it appends.\<close>

definition prior_content :: "world \<Rightarrow> string" where
  "prior_content w = fst (read_changelog w)"

definition section_text :: "string \<Rightarrow> string list \<Rightarrow> string" where
  "section_text date_str commits = join [nl] (new_section date_str commits)"

text \<open>
  The lines of a text are its pieces between newlines. A bullet line starts with \<open>- \<close>;
  the header line is \<open># Changelog\<close>.
\<close>

definition bullet_lines :: "string \<Rightarrow> string list" where
  "bullet_lines text = filter (\<lambda>l. startswith l ''- '') (split nl text)"

definition first_line :: "string \<Rightarrow> string" where
  "first_line doc = hd (split nl doc)"

definition header_count :: "string \<Rightarrow> nat" where
  "header_count doc = count_list (split nl doc) ''# Changelog''"

subsection \<open>The two operations as the specification words them\<close>

text \<open>
  The specification's format operation: a heading line \<open>## <date>\<close>, one bullet line per
  commit, followed by a blank line.
\<close>

definition spec_section_text :: "string \<Rightarrow> string list \<Rightarrow> string" where
  "spec_section_text date_str commits =
     ''## '' @ date_str @ [nl] @ concat (map (\<lambda>c. ''- '' @ c @ [nl]) commits) @ [nl]"

text \<open>
  The specification's merge operation: the header block in front of a content that does not
  start with the header, then the new section after a separating blank line.
\<close>

definition spec_merge :: "string \<Rightarrow> string \<Rightarrow> string" where
  "spec_merge existing new_text =
     (if startswith existing ''# Changelog'' then existing
      else ''# Changelog'' @ [nl, nl] @ existing) @ [nl] @ new_text"

section \<open>Basic facts about the run\<close>

lemma split_not_Nil [simp]: "split sep s \<noteq> []"
  by (induction s) (auto split: list.splits)

lemma get_commit_log_ok:
  "returncode git = 0 \<Longrightarrow> get_commit_log git = Inr (split nl (strip (stdout git)))"
  by (simp add: get_commit_log_def check_output_def)

lemma get_commit_log_failed:
  "returncode git \<noteq> 0 \<Longrightarrow> get_commit_log git = Inl (CalledProcessError (returncode git))"
  by (simp add: get_commit_log_def check_output_def)

lemma prior_content_log_event [simp]: "fst (read_changelog (log_event e w)) = prior_content w"
  by (simp add: read_changelog_def log_event_def prior_content_def split: option.splits)

lemma update_changelog_ok:
  "returncode git = 0 \<Longrightarrow>
   update_changelog git d w =
     (Inr (),
      write_changelog
        (with_header (prior_content w) @ section_text d (split nl (strip (stdout git))))
        (snd (read_changelog (log_event RunGit w))))"
  by (simp add: update_changelog_def get_commit_log_ok section_text_def case_prod_beta)

lemma update_changelog_failed:
  "returncode git \<noteq> 0 \<Longrightarrow>
   update_changelog git d w = (Inl (CalledProcessError (returncode git)), log_event RunGit w)"
  by (simp add: update_changelog_def get_commit_log_failed)

lemma changelog_write [simp]: "changelog (write_changelog s w) = Some s"
  by (simp add: write_changelog_def log_event_def)

lemma trace_write [simp]: "trace (write_changelog s w) = trace w @ [OpenWrite, Write s]"
  by (simp add: write_changelog_def log_event_def)

lemma trace_read:
  "trace (snd (read_changelog w)) =
     trace w @ (if changelog w = None then [PathExists] else [PathExists, OpenRead])"
  by (simp add: read_changelog_def log_event_def split: option.splits)

lemma changelog_after_ok:
  "returncode git = 0 \<Longrightarrow>
   changelog (snd (update_changelog git d w)) =
     Some (with_header (prior_content w) @ section_text d (split nl (strip (stdout git))))"
  by (simp add: update_changelog_ok)

subsection \<open>The section text and its lines\<close>

lemma join_Cons: "ys \<noteq> [] \<Longrightarrow> join sep (x # ys) = x @ sep @ join sep ys"
  by (cases ys) simp_all

lemma join_map_snoc:
  "join [nl] (map f cs @ [t]) = concat (map (\<lambda>c. f c @ [nl]) cs) @ t"
  by (induction cs) (simp_all add: join_Cons)

lemma section_text_eq:
  "section_text d cs =
     ''## '' @ d @ [nl, nl] @ concat (map (\<lambda>c. ''- '' @ c @ [nl]) cs) @ [nl]"
  by (simp add: section_text_def new_section_def join_Cons join_map_snoc)

lemma split_line: "sep \<notin> set h \<Longrightarrow> split sep (h @ sep # r) = h # split sep r"
  by (induction h) auto

lemma split_no_sep: "sep \<notin> set h \<Longrightarrow> split sep h = [h]"
  by (induction h) auto

lemma split_pieces_no_sep: "l \<in> set (split sep s) \<Longrightarrow> sep \<notin> set l"
proof (induction s arbitrary: l)
  case Nil
  then show ?case by simp
next
  case (Cons c s)
  obtain p ps where sp: "split sep s = p # ps"
    by (cases "split sep s") simp_all
  with Cons show ?case
    by (auto split: if_splits)
qed

lemma split_bullets:
  "\<forall>c \<in> set cs. nl \<notin> set c \<Longrightarrow>
   split nl (concat (map (\<lambda>c. ''- '' @ c @ [nl]) cs) @ r) = map (\<lambda>c. ''- '' @ c) cs @ split nl r"
proof (induction cs)
  case Nil
  then show ?case by simp
next
  case (Cons c cs)
  then have "nl \<notin> set (''- '' @ c)" by simp
  from split_line [OF this] Cons show ?case by simp
qed

lemma split_section_text:
  assumes "nl \<notin> set d" and "\<forall>c \<in> set cs. nl \<notin> set c"
  shows "split nl (section_text d cs) = [''## '' @ d, []] @ map (\<lambda>c. ''- '' @ c) cs @ [[], []]"
proof -
  have h: "nl \<notin> set (''## '' @ d)" using assms(1) by simp
  have "section_text d cs = (''## '' @ d) @ nl # (nl # concat (map (\<lambda>c. ''- '' @ c @ [nl]) cs) @ [nl])"
    by (simp add: section_text_eq)
  then have "split nl (section_text d cs) = (''## '' @ d) # split nl (nl # concat (map (\<lambda>c. ''- '' @ c @ [nl]) cs) @ [nl])"
    using split_line [OF h] by simp
  also have "split nl (nl # concat (map (\<lambda>c. ''- '' @ c @ [nl]) cs) @ [nl]) = [] # map (\<lambda>c. ''- '' @ c) cs @ [[], []]"
    using split_bullets [OF assms(2)] by simp
  finally show ?thesis by simp
qed

lemma bullet_lines_section_text:
  assumes "nl \<notin> set d" and "\<forall>c \<in> set cs. nl \<notin> set c"
  shows "bullet_lines (section_text d cs) = map (\<lambda>c. ''- '' @ c) cs"
proof -
  have "filter (\<lambda>l. startswith l ''- '') (map (\<lambda>c. ''- '' @ c) cs) = map (\<lambda>c. ''- '' @ c) cs"
    by (induction cs) (simp_all add: startswith_def)
  then show ?thesis
    by (simp add: bullet_lines_def split_section_text [OF assms] startswith_def)
qed

subsection \<open>The header at the start of the written text\<close>

lemma startswith_iff: "startswith s p \<longleftrightarrow> (\<exists>r. s = p @ r)"
proof
  assume "startswith s p"
  then have "s = p @ drop (length p) s"
    by (metis append_take_drop_id startswith_def)
  then show "\<exists>r. s = p @ r" ..
next
  assume "\<exists>r. s = p @ r"
  then show "startswith s p" by (auto simp: startswith_def)
qed

lemma startswith_append_same [simp]: "startswith (p @ x) (p @ y) = startswith x y"
  by (simp add: startswith_def)

lemma startswith_appendI: "startswith s p \<Longrightarrow> startswith (s @ t) p"
  by (auto simp: startswith_iff)

lemma startswith_with_header: "startswith (with_header s @ t) ''# Changelog''"
  by (simp add: with_header_def startswith_appendI) (simp add: startswith_def)

lemma section_text_hashes: "\<exists>r. section_text d cs = CHR ''#'' # CHR ''#'' # r"
  by (simp add: section_text_eq)

lemma blank_after_header_iff:
  "startswith (with_header s @ section_text d cs) ''# Changelog\<newline>\<newline>'' \<longleftrightarrow>
     (\<not> startswith s ''# Changelog'' \<or> startswith s ''# Changelog\<newline>\<newline>'')"
proof (cases "startswith s ''# Changelog''")
  case False
  then show ?thesis by (simp add: with_header_def) (simp add: startswith_def)
next
  case True
  then obtain r where s: "s = ''# Changelog'' @ r"
    by (auto simp: startswith_iff)
  obtain t where t: "section_text d cs = CHR ''#'' # CHR ''#'' # t"
    using section_text_hashes by blast
  have lit: "''# Changelog\<newline>\<newline>'' = ''# Changelog'' @ [nl, nl]" by simp
  have "startswith (r @ section_text d cs) [nl, nl] \<longleftrightarrow> startswith r [nl, nl]"
  proof (cases r)
    case Nil
    then show ?thesis by (simp add: t startswith_def)
  next
    case (Cons a r')
    then show ?thesis by (cases r') (simp_all add: t startswith_def)
  qed
  then have "startswith (''# Changelog'' @ r @ section_text d cs) (''# Changelog'' @ [nl, nl])
      \<longleftrightarrow> startswith (''# Changelog'' @ r) (''# Changelog'' @ [nl, nl])"
    by (simp only: startswith_append_same)
  moreover have "with_header s = s" using True by (simp add: with_header_def)
  ultimately show ?thesis
    using True unfolding lit by (simp only: s append_assoc simp_thms)
qed

subsection \<open>Header lines of the written text\<close>

lemma split_append_sep: "split sep (a @ sep # b) = split sep a @ split sep b"
proof (induction a)
  case Nil
  then show ?case by simp
next
  case (Cons c a)
  obtain p ps where sp: "split sep a = p # ps"
    by (cases "split sep a") simp_all
  with Cons show ?case by simp
qed

lemma split_snoc_piece:
  "sep \<notin> set h \<Longrightarrow> split sep (x @ h) = butlast (split sep x) @ [last (split sep x) @ h]"
proof (induction x)
  case Nil
  then show ?case by (simp add: split_no_sep)
next
  case (Cons c x)
  obtain p ps where sp: "split sep x = p # ps"
    by (cases "split sep x") simp_all
  with Cons show ?case by (cases ps) simp_all
qed

lemma split_append_section_text:
  assumes "nl \<notin> set d" and "\<forall>c \<in> set cs. nl \<notin> set c"
  shows "split nl (x @ section_text d cs) =
           butlast (split nl x) @ [last (split nl x) @ ''## '' @ d, []]
           @ map (\<lambda>c. ''- '' @ c) cs @ [[], []]"
proof -
  have h: "nl \<notin> set (''## '' @ d)" using assms(1) by simp
  have "x @ section_text d cs =
          (x @ ''## '' @ d) @ nl # (nl # concat (map (\<lambda>c. ''- '' @ c @ [nl]) cs) @ [nl])"
    by (simp add: section_text_eq)
  then have "split nl (x @ section_text d cs) =
          split nl (x @ ''## '' @ d) @ split nl (nl # concat (map (\<lambda>c. ''- '' @ c @ [nl]) cs) @ [nl])"
    by (simp only: split_append_sep)
  also have "split nl (x @ ''## '' @ d) = butlast (split nl x) @ [last (split nl x) @ ''## '' @ d]"
    by (rule split_snoc_piece [OF h])
  also have "split nl (nl # concat (map (\<lambda>c. ''- '' @ c @ [nl]) cs) @ [nl]) =
          [] # map (\<lambda>c. ''- '' @ c) cs @ [[], []]"
    using split_bullets [OF assms(2)] by simp
  finally show ?thesis by simp
qed

lemma heading_not_header: "l @ ''## '' @ d \<noteq> ''# Changelog''"
proof
  assume "l @ ''## '' @ d = ''# Changelog''"
  then have "count_list (l @ ''## '' @ d) CHR ''#'' = count_list ''# Changelog'' CHR ''#''"
    by simp
  then show False by simp
qed

lemma header_count_append_section_text:
  assumes "nl \<notin> set d" and "\<forall>c \<in> set cs. nl \<notin> set c"
  shows "header_count (x @ section_text d cs) = count_list (butlast (split nl x)) ''# Changelog''"
proof -
  have "''# Changelog'' \<notin> set (map (\<lambda>c. ''- '' @ c) cs)" by auto
  then have "count_list (map (\<lambda>c. ''- '' @ c) cs) ''# Changelog'' = 0" by simp
  then show ?thesis
    using heading_not_header [of "last (split nl x)" d]
    by (simp add: header_count_def split_append_section_text [OF assms])
qed

lemma count_list_butlast_0: "count_list xs y = 0 \<Longrightarrow> count_list (butlast xs) y = 0"
  by (auto simp: count_list_0_iff dest: in_set_butlastD)

lemma header_once_without_header:
  assumes "nl \<notin> set d" and "\<forall>c \<in> set cs. nl \<notin> set c"
    and "\<not> startswith old ''# Changelog''" and "header_count old = 0"
  shows "startswith (with_header old @ section_text d cs) ''# Changelog\<newline>''
       \<and> first_line (with_header old @ section_text d cs) = ''# Changelog''
       \<and> header_count (with_header old @ section_text d cs) = 1"
proof -
  let ?t = "old @ section_text d cs"
  have w: "with_header old @ section_text d cs = ''# Changelog'' @ nl # (nl # ?t)"
    using assms(3) by (simp add: with_header_def)
  have "nl \<notin> set ''# Changelog''" by simp
  from split_line [OF this, of "nl # ?t"]
  have sp: "split nl (with_header old @ section_text d cs) = ''# Changelog'' # [] # split nl ?t"
    by (simp only: w) simp
  have "count_list (butlast (split nl old)) ''# Changelog'' = 0"
    using assms(4) by (simp add: header_count_def count_list_butlast_0)
  then have c: "header_count ?t = 0"
    by (simp add: header_count_append_section_text [OF assms(1,2)])
  have 1: "startswith (with_header old @ section_text d cs) ''# Changelog\<newline>''"
    by (simp only: w) (simp add: startswith_def)
  have 2: "first_line (with_header old @ section_text d cs) = ''# Changelog''"
    by (simp add: first_line_def sp)
  have 3: "header_count (with_header old @ section_text d cs) = 1"
    using c by (simp add: header_count_def sp)
  from 1 2 3 show ?thesis by simp
qed

lemma header_once_with_header:
  assumes "nl \<notin> set d" and "\<forall>c \<in> set cs. nl \<notin> set c"
    and "startswith old ''# Changelog\<newline>''" and "header_count old = 1"
  shows "startswith (with_header old @ section_text d cs) ''# Changelog\<newline>''
       \<and> first_line (with_header old @ section_text d cs) = ''# Changelog''
       \<and> header_count (with_header old @ section_text d cs) = 1"
proof -
  from assms(3) obtain r where "old = ''# Changelog\<newline>'' @ r"
    by (auto simp: startswith_iff)
  then have old: "old = ''# Changelog'' @ nl # r" by simp
  have n: "nl \<notin> set ''# Changelog''" by simp
  have "startswith old ''# Changelog''"
    by (simp only: old) (simp add: startswith_def)
  then have w: "with_header old @ section_text d cs = ''# Changelog'' @ nl # (r @ section_text d cs)"
    by (simp add: with_header_def) (simp add: old)
  from split_line [OF n, of "r @ section_text d cs"]
  have sp: "split nl (with_header old @ section_text d cs) = ''# Changelog'' # split nl (r @ section_text d cs)"
    by (simp only: w)
  from split_line [OF n, of r]
  have "split nl old = ''# Changelog'' # split nl r"
    by (simp only: old)
  with assms(4) have "count_list (split nl r) ''# Changelog'' = 0"
    by (simp add: header_count_def)
  then have "count_list (butlast (split nl r)) ''# Changelog'' = 0"
    by (rule count_list_butlast_0)
  then have c: "header_count (r @ section_text d cs) = 0"
    by (simp add: header_count_append_section_text [OF assms(1,2)])
  have 1: "startswith (with_header old @ section_text d cs) ''# Changelog\<newline>''"
    by (simp only: w) (simp add: startswith_def)
  have 2: "first_line (with_header old @ section_text d cs) = ''# Changelog''"
    by (simp add: first_line_def sp)
  have 3: "header_count (with_header old @ section_text d cs) = 1"
    using c by (simp add: header_count_def sp)
  from 1 2 3 show ?thesis by simp
qed

subsection \<open>Reading the file\<close>

lemma universal_newlines_no_cr: "cr \<notin> set s \<Longrightarrow> universal_newlines s = s"
  by (induction s rule: universal_newlines.induct) auto

lemma prior_content_Some: "changelog w = Some s \<Longrightarrow> prior_content w = universal_newlines s"
  by (simp add: prior_content_def read_changelog_def)

lemma prior_content_None: "changelog w = None \<Longrightarrow> prior_content w = []"
  by (simp add: prior_content_def read_changelog_def)

lemma kept_in_written:
  "if startswith t ''# Changelog''
   then take (length t) (with_header t @ x) = t
   else take 13 (with_header t @ x) = ''# Changelog\<newline>\<newline>''
        \<and> take (length t) (drop 13 (with_header t @ x)) = t"
  by (simp add: with_header_def)

section \<open>The claims\<close>

text \<open>
  C10. Whatever the git process prints, \<open>get_commit_log\<close> returns a list with at least
  one element, because splitting a string always yields at least one piece. So
  \<open>get_commit_log\<close> never returns the empty list, and no run of \<open>update_changelog\<close>
  ends in the result of the \<open>if not commits\<close> branch (success with the git query as the
  only operation performed).
\<close>

theorem no_op_branch_unreachable:
  "get_commit_log \<lparr>returncode = 0, stdout = out\<rparr> = Inr (split nl (strip out))
   \<and> split nl (strip out) \<noteq> []
   \<and> get_commit_log git \<noteq> Inr []
   \<and> update_changelog git d w \<noteq> (Inr (), log_event RunGit w)"
proof -
  have a: "get_commit_log \<lparr>returncode = 0, stdout = out\<rparr> = Inr (split nl (strip out))"
    by (simp add: get_commit_log_ok)
  have b: "get_commit_log git \<noteq> Inr []"
    by (cases "returncode git = 0") (simp_all add: get_commit_log_ok get_commit_log_failed)
  have c: "update_changelog git d w \<noteq> (Inr (), log_event RunGit w)"
  proof (cases "returncode git = 0")
    case True
    have "length (trace (snd (update_changelog git d w))) \<noteq> length (trace (log_event RunGit w))"
      by (simp add: update_changelog_ok [OF True] trace_read log_event_def)
    then show ?thesis by auto
  next
    case False
    then show ?thesis by (simp add: update_changelog_failed)
  qed
  from a b c show ?thesis by simp
qed

text \<open>
  C8. When the git query exits with a non-zero status, the run ends with
  \<open>CalledProcessError\<close>, the changelog file is what it was, and the git query is the
  only operation performed: the file is not read, opened or written.
\<close>

theorem query_failure_aborts:
  "returncode git \<noteq> 0 \<Longrightarrow>
   fst (update_changelog git d w) = Inl (CalledProcessError (returncode git))
   \<and> changelog (snd (update_changelog git d w)) = changelog w
   \<and> trace (snd (update_changelog git d w)) = trace w @ [RunGit]"
  by (simp add: update_changelog_failed log_event_def)

theorem query_failure_aborts_witness:
  "returncode \<lparr>returncode = 128, stdout = ''''\<rparr> \<noteq> 0
   \<and> fst (update_changelog \<lparr>returncode = 128, stdout = ''''\<rparr> ''2024-05-01''
            \<lparr>changelog = Some ''old notes\<newline>'', trace = []\<rparr>) = Inl (CalledProcessError 128)
   \<and> changelog (snd (update_changelog \<lparr>returncode = 128, stdout = ''''\<rparr> ''2024-05-01''
            \<lparr>changelog = Some ''old notes\<newline>'', trace = []\<rparr>)) = Some ''old notes\<newline>''
   \<and> trace (snd (update_changelog \<lparr>returncode = 128, stdout = ''''\<rparr> ''2024-05-01''
            \<lparr>changelog = Some ''old notes\<newline>'', trace = []\<rparr>)) = [RunGit]"
  using query_failure_aborts [of "\<lparr>returncode = 128, stdout = ''''\<rparr>" "''2024-05-01''"
      "\<lparr>changelog = Some ''old notes\<newline>'', trace = []\<rparr>"]
  by simp

text \<open>
  C7. When the git query returns the commit lines \<open>commits\<close> (there is at least one
  line) and the date string has no newline, the run writes the prior content, with its
  header, followed by the new section, and the bullet lines of that section are exactly
  the lines \<open>- <commit line>\<close>, one per commit line and in the order of the query: there
  are as many bullet lines as commit lines.
\<close>

theorem section_has_one_bullet_per_commit:
  "get_commit_log git = Inr commits \<Longrightarrow> nl \<notin> set date_str \<Longrightarrow>
   0 < length commits
   \<and> changelog (snd (update_changelog git date_str w)) =
       Some (with_header (prior_content w) @ section_text date_str commits)
   \<and> bullet_lines (section_text date_str commits) = map (\<lambda>c. ''- '' @ c) commits
   \<and> length (bullet_lines (section_text date_str commits)) = length commits"
proof -
  assume g: "get_commit_log git = Inr commits" and d: "nl \<notin> set date_str"
  have rc: "returncode git = 0"
    using g by (cases "returncode git = 0") (simp_all add: get_commit_log_failed)
  with g have cs: "commits = split nl (strip (stdout git))"
    by (simp add: get_commit_log_ok)
  then have free: "\<forall>c \<in> set commits. nl \<notin> set c"
    by (simp add: split_pieces_no_sep)
  have b: "bullet_lines (section_text date_str commits) = map (\<lambda>c. ''- '' @ c) commits"
    by (rule bullet_lines_section_text [OF d free])
  have n: "0 < length commits" using cs by simp
  have f: "changelog (snd (update_changelog git date_str w)) =
       Some (with_header (prior_content w) @ section_text date_str commits)"
    using rc cs by (simp add: changelog_after_ok)
  from n f b show ?thesis by simp
qed

theorem section_has_one_bullet_per_commit_witness:
  "get_commit_log \<lparr>returncode = 0, stdout = ''a1b2c3d Fix X\<newline>e4f5g6h Add Y\<newline>''\<rparr>
     = Inr [''a1b2c3d Fix X'', ''e4f5g6h Add Y'']
   \<and> nl \<notin> set ''2024-05-01''
   \<and> bullet_lines (section_text ''2024-05-01'' [''a1b2c3d Fix X'', ''e4f5g6h Add Y''])
       = [''- a1b2c3d Fix X'', ''- e4f5g6h Add Y'']
   \<and> length (bullet_lines (section_text ''2024-05-01'' [''a1b2c3d Fix X'', ''e4f5g6h Add Y''])) = 2"
proof -
  have g: "get_commit_log \<lparr>returncode = 0, stdout = ''a1b2c3d Fix X\<newline>e4f5g6h Add Y\<newline>''\<rparr>
     = Inr [''a1b2c3d Fix X'', ''e4f5g6h Add Y'']"
    by (simp add: get_commit_log_def check_output_def strip_def is_space_def)
  have d: "nl \<notin> set ''2024-05-01''" by simp
  from section_has_one_bullet_per_commit [OF g d] g d show ?thesis by simp
qed

text \<open>
  C6, as amended. For every date string and every sequence of commit lines the section
  text is the heading line \<open>## <date>\<close>, then a blank line, then one bullet line
  \<open>- <commit line>\<close> per commit, then a blank line, and nothing else. The claim as
  stated, with the bullets directly after the heading, fails: for one commit
  \<open>a1b2c3d Fix X\<close> on 2024-05-01 the code yields a text with a blank line after the
  heading, which is not the text of the specification's format operation.
\<close>

theorem section_text_blank_after_heading:
  "section_text date_str commits =
     ''## '' @ date_str @ [nl] @ [nl] @ concat (map (\<lambda>c. ''- '' @ c @ [nl]) commits) @ [nl]"
  by (simp add: section_text_eq)

theorem section_text_counterexample:
  "section_text ''2024-05-01'' [''a1b2c3d Fix X''] = ''## 2024-05-01\<newline>\<newline>- a1b2c3d Fix X\<newline>\<newline>''
   \<and> spec_section_text ''2024-05-01'' [''a1b2c3d Fix X''] = ''## 2024-05-01\<newline>- a1b2c3d Fix X\<newline>\<newline>''
   \<and> section_text ''2024-05-01'' [''a1b2c3d Fix X''] \<noteq> spec_section_text ''2024-05-01'' [''a1b2c3d Fix X'']"
  by (simp add: section_text_def new_section_def spec_section_text_def)

text \<open>
  C3, as amended. When the git query succeeds, the text written to the file starts with
  \<open># Changelog\<close>, whatever the file held before (nothing, a content with the header,
  a content without it). The header is followed at once by a blank line exactly when the
  prior content did not start with \<open># Changelog\<close> (the run then puts the header and a
  blank line in front) or started itself with the header and a blank line. The claim as
  stated fails for a prior content that starts with the header and goes on otherwise,
  such as the header line directly followed by a line of notes.
\<close>

theorem written_starts_with_header_text:
  "returncode git = 0 \<Longrightarrow>
   \<exists>written. changelog (snd (update_changelog git date_str w)) = Some written
     \<and> startswith written ''# Changelog''
     \<and> (startswith written ''# Changelog\<newline>\<newline>'' \<longleftrightarrow>
          (\<not> startswith (prior_content w) ''# Changelog''
           \<or> startswith (prior_content w) ''# Changelog\<newline>\<newline>''))"
proof -
  assume rc: "returncode git = 0"
  let ?written = "with_header (prior_content w) @ section_text date_str (split nl (strip (stdout git)))"
  have 1: "changelog (snd (update_changelog git date_str w)) = Some ?written"
    by (rule changelog_after_ok [OF rc])
  have 2: "startswith ?written ''# Changelog''"
    by (rule startswith_with_header)
  have 3: "startswith ?written ''# Changelog\<newline>\<newline>'' \<longleftrightarrow>
          (\<not> startswith (prior_content w) ''# Changelog''
           \<or> startswith (prior_content w) ''# Changelog\<newline>\<newline>'')"
    by (rule blank_after_header_iff)
  from 1 2 3 show ?thesis by blast
qed

theorem written_starts_with_header_text_witness:
  "returncode \<lparr>returncode = 0, stdout = ''a1b2c3d Fix X''\<rparr> = 0
   \<and> (\<exists>written.
        changelog (snd (update_changelog \<lparr>returncode = 0, stdout = ''a1b2c3d Fix X''\<rparr> ''2024-05-01''
                          \<lparr>changelog = Some ''old notes\<newline>'', trace = []\<rparr>)) = Some written
        \<and> startswith written ''# Changelog''
        \<and> startswith written ''# Changelog\<newline>\<newline>'')"
  using written_starts_with_header_text [of "\<lparr>returncode = 0, stdout = ''a1b2c3d Fix X''\<rparr>"
      "''2024-05-01''" "\<lparr>changelog = Some ''old notes\<newline>'', trace = []\<rparr>"]
  by (simp add: prior_content_def read_changelog_def startswith_def)

theorem blank_line_after_header_counterexample:
  "changelog (snd (update_changelog \<lparr>returncode = 0, stdout = ''a1b2c3d Fix X''\<rparr> ''2024-05-01''
                     \<lparr>changelog = Some ''# Changelog\<newline>old notes\<newline>'', trace = []\<rparr>))
     = Some ''# Changelog\<newline>old notes\<newline>## 2024-05-01\<newline>\<newline>- a1b2c3d Fix X\<newline>\<newline>''
   \<and> \<not> startswith ''# Changelog\<newline>old notes\<newline>## 2024-05-01\<newline>\<newline>- a1b2c3d Fix X\<newline>\<newline>''
         ''# Changelog\<newline>\<newline>''"
  by (simp add: update_changelog_def get_commit_log_def check_output_def strip_def is_space_def
      read_changelog_def write_changelog_def log_event_def with_header_def startswith_def
      new_section_def)

text \<open>
  C4, as amended. With the changelog file absent or empty, the git query printing the
  three commit lines \<open>a1b2c3d Fix X\<close>, \<open>e4f5g6h Add Y\<close>, \<open>112233a Refactor Z\<close> and
  the date string 2024-05-01, the run writes the header, a blank line, the heading
  \<open>## 2024-05-01\<close>, a blank line, the three bullet lines and a blank line. The content
  of the claim as stated, with the bullets directly after the heading, is not what is
  written.
\<close>

theorem three_commits_on_empty_file:
  "get_commit_log \<lparr>returncode = 0, stdout = ''a1b2c3d Fix X\<newline>e4f5g6h Add Y\<newline>112233a Refactor Z''\<rparr>
     = Inr [''a1b2c3d Fix X'', ''e4f5g6h Add Y'', ''112233a Refactor Z'']
   \<and> changelog (snd (update_changelog
         \<lparr>returncode = 0, stdout = ''a1b2c3d Fix X\<newline>e4f5g6h Add Y\<newline>112233a Refactor Z''\<rparr>
         ''2024-05-01'' \<lparr>changelog = None, trace = []\<rparr>))
     = Some ''# Changelog\<newline>\<newline>## 2024-05-01\<newline>\<newline>- a1b2c3d Fix X\<newline>- e4f5g6h Add Y\<newline>- 112233a Refactor Z\<newline>\<newline>''
   \<and> changelog (snd (update_changelog
         \<lparr>returncode = 0, stdout = ''a1b2c3d Fix X\<newline>e4f5g6h Add Y\<newline>112233a Refactor Z''\<rparr>
         ''2024-05-01'' \<lparr>changelog = Some [], trace = []\<rparr>))
     = Some ''# Changelog\<newline>\<newline>## 2024-05-01\<newline>\<newline>- a1b2c3d Fix X\<newline>- e4f5g6h Add Y\<newline>- 112233a Refactor Z\<newline>\<newline>''"
  by (simp add: update_changelog_def get_commit_log_def check_output_def strip_def is_space_def
      read_changelog_def write_changelog_def log_event_def with_header_def startswith_def
      new_section_def)

theorem three_commits_on_empty_file_counterexample:
  "changelog (snd (update_changelog
         \<lparr>returncode = 0, stdout = ''a1b2c3d Fix X\<newline>e4f5g6h Add Y\<newline>112233a Refactor Z''\<rparr>
         ''2024-05-01'' \<lparr>changelog = None, trace = []\<rparr>))
     \<noteq> Some ''# Changelog\<newline>\<newline>## 2024-05-01\<newline>- a1b2c3d Fix X\<newline>- e4f5g6h Add Y\<newline>- 112233a Refactor Z\<newline>\<newline>''
   \<and> changelog (snd (update_changelog
         \<lparr>returncode = 0, stdout = ''a1b2c3d Fix X\<newline>e4f5g6h Add Y\<newline>112233a Refactor Z''\<rparr>
         ''2024-05-01'' \<lparr>changelog = Some [], trace = []\<rparr>))
     \<noteq> Some ''# Changelog\<newline>\<newline>## 2024-05-01\<newline>- a1b2c3d Fix X\<newline>- e4f5g6h Add Y\<newline>- 112233a Refactor Z\<newline>\<newline>''"
  by (simp add: update_changelog_def get_commit_log_def check_output_def strip_def is_space_def
      read_changelog_def write_changelog_def log_event_def with_header_def startswith_def
      new_section_def)

text \<open>
  C5, as amended. When the git query succeeds, the text written is the existing content,
  with the header and a blank line put in front when the content does not start with
  \<open># Changelog\<close> and as it is when it does (no second header), directly followed by
  the text of the new section: the step inserts nothing between the two. The claim as
  stated, with a separating blank line, fails for the existing content
  \<open>old notes\<close> ended by a newline: the heading follows that line at once.
\<close>

theorem merge_appends_directly:
  "returncode git = 0 \<Longrightarrow>
   changelog (snd (update_changelog git date_str w)) =
     Some ((if startswith (prior_content w) ''# Changelog'' then prior_content w
            else ''# Changelog\<newline>\<newline>'' @ prior_content w)
           @ section_text date_str (split nl (strip (stdout git))))"
  by (simp add: changelog_after_ok with_header_def)

theorem merge_appends_directly_witness:
  "returncode \<lparr>returncode = 0, stdout = ''a1b2c3d Fix X''\<rparr> = 0
   \<and> changelog (snd (update_changelog \<lparr>returncode = 0, stdout = ''a1b2c3d Fix X''\<rparr> ''2024-05-01''
                     \<lparr>changelog = Some ''# Changelog\<newline>\<newline>old notes\<newline>\<newline>'', trace = []\<rparr>))
     = Some (''# Changelog\<newline>\<newline>old notes\<newline>\<newline>'' @ section_text ''2024-05-01'' [''a1b2c3d Fix X''])"
  using merge_appends_directly [of "\<lparr>returncode = 0, stdout = ''a1b2c3d Fix X''\<rparr>" "''2024-05-01''"
      "\<lparr>changelog = Some ''# Changelog\<newline>\<newline>old notes\<newline>\<newline>'', trace = []\<rparr>"]
  by (simp add: prior_content_def read_changelog_def startswith_def strip_def is_space_def)

theorem merge_separator_counterexample:
  "changelog (snd (update_changelog \<lparr>returncode = 0, stdout = ''a1b2c3d Fix X''\<rparr> ''2024-05-01''
                     \<lparr>changelog = Some ''old notes\<newline>'', trace = []\<rparr>))
     = Some ''# Changelog\<newline>\<newline>old notes\<newline>## 2024-05-01\<newline>\<newline>- a1b2c3d Fix X\<newline>\<newline>''
   \<and> spec_merge ''old notes\<newline>'' (section_text ''2024-05-01'' [''a1b2c3d Fix X''])
     = ''# Changelog\<newline>\<newline>old notes\<newline>\<newline>## 2024-05-01\<newline>\<newline>- a1b2c3d Fix X\<newline>\<newline>''
   \<and> changelog (snd (update_changelog \<lparr>returncode = 0, stdout = ''a1b2c3d Fix X''\<rparr> ''2024-05-01''
                     \<lparr>changelog = Some ''old notes\<newline>'', trace = []\<rparr>))
     \<noteq> Some (spec_merge ''old notes\<newline>'' (section_text ''2024-05-01'' [''a1b2c3d Fix X'']))"
  by (simp add: update_changelog_def get_commit_log_def check_output_def strip_def is_space_def
      read_changelog_def write_changelog_def log_event_def with_header_def startswith_def
      new_section_def spec_merge_def section_text_def)

text \<open>
  C9, as amended. When the git query succeeds and the file exists, the run writes a text
  that holds, unchanged and in one piece, the prior content as the run reads it: the
  file's content with every carriage return and line feed pair, and every other carriage
  return, turned into one line feed. That text is at the start of the written text when
  it starts with \<open># Changelog\<close>, and otherwise directly after the 13 characters of the
  header and its blank line. For a prior content without carriage returns this is the
  prior content itself, every character of it. The claim as stated fails for a file
  with carriage returns: they are not written back, so the prior content is no part of
  the new one.
\<close>

theorem prior_text_kept:
  assumes "returncode git = 0" and "changelog w = Some s"
  shows "\<exists>written. changelog (snd (update_changelog git date_str w)) = Some written
     \<and> (if startswith (universal_newlines s) ''# Changelog''
         then take (length (universal_newlines s)) written = universal_newlines s
         else take 13 written = ''# Changelog\<newline>\<newline>''
              \<and> take (length (universal_newlines s)) (drop 13 written) = universal_newlines s)
     \<and> (cr \<notin> set s \<longrightarrow>
          (if startswith s ''# Changelog''
           then take (length s) written = s
           else take 13 written = ''# Changelog\<newline>\<newline>''
                \<and> take (length s) (drop 13 written) = s))"
proof -
  let ?t = "universal_newlines s"
  let ?written = "with_header ?t @ section_text date_str (split nl (strip (stdout git)))"
  have p: "prior_content w = ?t"
    by (rule prior_content_Some [OF assms(2)])
  have 1: "changelog (snd (update_changelog git date_str w)) = Some ?written"
    using changelog_after_ok [OF assms(1), of date_str w] by (simp only: p)
  have 2: "if startswith ?t ''# Changelog''
         then take (length ?t) ?written = ?t
         else take 13 ?written = ''# Changelog\<newline>\<newline>''
              \<and> take (length ?t) (drop 13 ?written) = ?t"
    by (rule kept_in_written)
  have 3: "cr \<notin> set s \<longrightarrow>
          (if startswith s ''# Changelog''
           then take (length s) ?written = s
           else take 13 ?written = ''# Changelog\<newline>\<newline>''
                \<and> take (length s) (drop 13 ?written) = s)"
  proof
    assume "cr \<notin> set s"
    then have e: "?t = s" by (rule universal_newlines_no_cr)
    from 2 show "if startswith s ''# Changelog''
           then take (length s) ?written = s
           else take 13 ?written = ''# Changelog\<newline>\<newline>''
                \<and> take (length s) (drop 13 ?written) = s"
      by (simp only: e)
  qed
  from 1 2 3 show ?thesis by blast
qed

theorem prior_text_kept_witness:
  "returncode \<lparr>returncode = 0, stdout = ''a1b2c3d Fix X''\<rparr> = 0
   \<and> changelog \<lparr>changelog = Some ''old notes\<newline>'', trace = []\<rparr> = Some ''old notes\<newline>''
   \<and> cr \<notin> set ''old notes\<newline>''
   \<and> (\<exists>written.
        changelog (snd (update_changelog \<lparr>returncode = 0, stdout = ''a1b2c3d Fix X''\<rparr> ''2024-05-01''
                          \<lparr>changelog = Some ''old notes\<newline>'', trace = []\<rparr>)) = Some written
        \<and> take 13 written = ''# Changelog\<newline>\<newline>''
        \<and> take (length ''old notes\<newline>'') (drop 13 written) = ''old notes\<newline>'')"
  using prior_text_kept [of "\<lparr>returncode = 0, stdout = ''a1b2c3d Fix X''\<rparr>"
      "\<lparr>changelog = Some ''old notes\<newline>'', trace = []\<rparr>" "''old notes\<newline>''" "''2024-05-01''"]
  by (simp add: startswith_def)

theorem prior_content_carriage_return_counterexample:
  "changelog (snd (update_changelog \<lparr>returncode = 0, stdout = ''a1b2c3d Fix X''\<rparr> ''2024-05-01''
       \<lparr>changelog = Some (''# Changelog'' @ [cr, nl, cr, nl] @ ''old notes'' @ [cr, nl]),
        trace = []\<rparr>))
     = Some ''# Changelog\<newline>\<newline>old notes\<newline>## 2024-05-01\<newline>\<newline>- a1b2c3d Fix X\<newline>\<newline>''
   \<and> startswith (''# Changelog'' @ [cr, nl, cr, nl] @ ''old notes'' @ [cr, nl]) ''# Changelog''
   \<and> take (length (''# Changelog'' @ [cr, nl, cr, nl] @ ''old notes'' @ [cr, nl]))
         ''# Changelog\<newline>\<newline>old notes\<newline>## 2024-05-01\<newline>\<newline>- a1b2c3d Fix X\<newline>\<newline>''
       \<noteq> ''# Changelog'' @ [cr, nl, cr, nl] @ ''old notes'' @ [cr, nl]
   \<and> cr \<in> set (''# Changelog'' @ [cr, nl, cr, nl] @ ''old notes'' @ [cr, nl])
   \<and> cr \<notin> set ''# Changelog\<newline>\<newline>old notes\<newline>## 2024-05-01\<newline>\<newline>- a1b2c3d Fix X\<newline>\<newline>''"
  by (simp add: update_changelog_def get_commit_log_def check_output_def strip_def is_space_def
      read_changelog_def write_changelog_def log_event_def with_header_def startswith_def
      new_section_def)

text \<open>
  C1, on the code. When the git query succeeds and prints nothing (no commit in the
  range), \<open>get_commit_log\<close> returns the list of one empty line, so the run does not stop:
  a file holding \<open>old notes\<close> is read and rewritten with the header in front and a
  section of one empty bullet after it, and an absent file is created.
\<close>

theorem zero_commits_run_rewrites_file:
  "get_commit_log \<lparr>returncode = 0, stdout = []\<rparr> = Inr [[]]
   \<and> update_changelog \<lparr>returncode = 0, stdout = []\<rparr> ''2024-05-01''
        \<lparr>changelog = Some ''old notes\<newline>'', trace = []\<rparr>
     = (Inr (),
        \<lparr>changelog = Some ''# Changelog\<newline>\<newline>old notes\<newline>## 2024-05-01\<newline>\<newline>- \<newline>\<newline>'',
         trace = [RunGit, PathExists, OpenRead, OpenWrite,
                  Write ''# Changelog\<newline>\<newline>old notes\<newline>## 2024-05-01\<newline>\<newline>- \<newline>\<newline>'']\<rparr>)
   \<and> changelog (snd (update_changelog \<lparr>returncode = 0, stdout = []\<rparr> ''2024-05-01''
                     \<lparr>changelog = None, trace = []\<rparr>))
     = Some ''# Changelog\<newline>\<newline>## 2024-05-01\<newline>\<newline>- \<newline>\<newline>''"
  by (simp add: update_changelog_def get_commit_log_def check_output_def strip_def is_space_def
      read_changelog_def write_changelog_def log_event_def with_header_def startswith_def
      new_section_def)

text \<open>
  C2, as amended. When the git query succeeds and the date string has no newline, the
  text written starts with \<open># Changelog\<close>, for every prior content. If the prior
  content has no line \<open># Changelog\<close> and does not start with that text (as when the
  file is absent or empty), or if it starts with the line \<open># Changelog\<close> ended by a
  newline and has that line exactly once, then the written text begins with the header
  line, ended by a newline, and the header line occurs exactly once in it; so the
  property is kept from run to run. For other prior contents the claim as stated fails:
  after notes followed by a line \<open># Changelog\<close> the run puts a second header in front.
\<close>

theorem header_line_once:
  assumes "returncode git = 0" and "nl \<notin> set date_str"
  shows "\<exists>written. changelog (snd (update_changelog git date_str w)) = Some written
     \<and> startswith written ''# Changelog''
     \<and> ((\<not> startswith (prior_content w) ''# Changelog'' \<and> header_count (prior_content w) = 0
          \<or> startswith (prior_content w) ''# Changelog\<newline>'' \<and> header_count (prior_content w) = 1)
         \<longrightarrow> startswith written ''# Changelog\<newline>''
             \<and> first_line written = ''# Changelog''
             \<and> header_count written = 1)"
proof -
  let ?cs = "split nl (strip (stdout git))"
  let ?written = "with_header (prior_content w) @ section_text date_str ?cs"
  have free: "\<forall>c \<in> set ?cs. nl \<notin> set c"
    by (simp add: split_pieces_no_sep)
  have 1: "changelog (snd (update_changelog git date_str w)) = Some ?written"
    by (rule changelog_after_ok [OF assms(1)])
  have 2: "startswith ?written ''# Changelog''"
    by (rule startswith_with_header)
  have 3: "(\<not> startswith (prior_content w) ''# Changelog'' \<and> header_count (prior_content w) = 0
          \<or> startswith (prior_content w) ''# Changelog\<newline>'' \<and> header_count (prior_content w) = 1)
         \<longrightarrow> startswith ?written ''# Changelog\<newline>''
             \<and> first_line ?written = ''# Changelog''
             \<and> header_count ?written = 1"
    using header_once_without_header [OF assms(2) free]
      header_once_with_header [OF assms(2) free]
    by blast
  from 1 2 3 show ?thesis by blast
qed

theorem header_line_once_witness:
  "returncode \<lparr>returncode = 0, stdout = ''a1b2c3d Fix X''\<rparr> = 0
   \<and> nl \<notin> set ''2024-05-01''
   \<and> \<not> startswith ''old notes\<newline>'' ''# Changelog''
   \<and> header_count ''old notes\<newline>'' = 0
   \<and> (\<exists>written.
        changelog (snd (update_changelog \<lparr>returncode = 0, stdout = ''a1b2c3d Fix X''\<rparr> ''2024-05-01''
                          \<lparr>changelog = Some ''old notes\<newline>'', trace = []\<rparr>)) = Some written
        \<and> startswith written ''# Changelog''
        \<and> first_line written = ''# Changelog''
        \<and> header_count written = 1)"
proof -
  have a: "returncode \<lparr>returncode = 0, stdout = ''a1b2c3d Fix X''\<rparr> = 0" by simp
  have b: "nl \<notin> set ''2024-05-01''" by simp
  have c: "\<not> startswith ''old notes\<newline>'' ''# Changelog''" by (simp add: startswith_def)
  have d: "header_count ''old notes\<newline>'' = 0" by (simp add: header_count_def)
  have e: "prior_content \<lparr>changelog = Some ''old notes\<newline>'', trace = []\<rparr> = ''old notes\<newline>''"
    by (simp add: prior_content_def read_changelog_def)
  from header_line_once [OF a b, of "\<lparr>changelog = Some ''old notes\<newline>'', trace = []\<rparr>"] c d
  have "\<exists>written.
        changelog (snd (update_changelog \<lparr>returncode = 0, stdout = ''a1b2c3d Fix X''\<rparr> ''2024-05-01''
                          \<lparr>changelog = Some ''old notes\<newline>'', trace = []\<rparr>)) = Some written
        \<and> startswith written ''# Changelog''
        \<and> first_line written = ''# Changelog''
        \<and> header_count written = 1"
    unfolding e by blast
  with a b c d show ?thesis by blast
qed

theorem header_line_once_counterexample:
  "changelog (snd (update_changelog \<lparr>returncode = 0, stdout = ''a1b2c3d Fix X''\<rparr> ''2024-05-01''
                     \<lparr>changelog = Some ''old notes\<newline># Changelog\<newline>'', trace = []\<rparr>))
     = Some ''# Changelog\<newline>\<newline>old notes\<newline># Changelog\<newline>## 2024-05-01\<newline>\<newline>- a1b2c3d Fix X\<newline>\<newline>''
   \<and> header_count ''# Changelog\<newline>\<newline>old notes\<newline># Changelog\<newline>## 2024-05-01\<newline>\<newline>- a1b2c3d Fix X\<newline>\<newline>'' = 2"
  by (simp add: update_changelog_def get_commit_log_def check_output_def strip_def is_space_def
      read_changelog_def write_changelog_def log_event_def with_header_def startswith_def
      new_section_def header_count_def)

end
